theory Spec2Isabelle
  imports Main "HOL-Library.Sublist"
begin

section \<open>Python values, exceptions and the library objects the tools read\<close>

text \<open>
  The two tool functions of \<^verbatim>\<open>swarm.py\<close> call third-party libraries (yfinance, SerpAPI,
  datetime). What those calls answer is the environment of a tool call: a record of
  functions, each returning either the exception it raises (\<open>Inl\<close>) or its value (\<open>Inr\<close>).
  A \<open>pyexc\<close> is an instance of Python's \<^verbatim>\<open>Exception\<close> class, the class both handlers
  of the tools name; \<open>exc_str e\<close> is \<^verbatim>\<open>str(e)\<close>.
  Strings are \<open>string\<close>: code points below 256.
\<close>

datatype pyexc = PyException (exc_class: string) (exc_str: string)

datatype 'v pyval = PyNone | PyStr string | PyObj 'v

type_synonym 'v pydict = "(string \<times> 'v pyval) list"

definition dict_get :: "'v pydict \<Rightarrow> string \<Rightarrow> 'v pyval" where
  \<comment> \<open>\<^verbatim>\<open>d.get(k)\<close>: the value stored under \<open>k\<close>, \<^verbatim>\<open>None\<close> when the key is absent\<close>
  "dict_get d k = (case map_of d k of None \<Rightarrow> PyNone | Some v \<Rightarrow> v)"

text \<open>
  A pandas DataFrame, as far as \<^verbatim>\<open>get_stock_data\<close> reads it: the row labels and the
  columns with their values. \<^verbatim>\<open>df.empty\<close> holds when an axis has length 0,
  \<^verbatim>\<open>df["Close"]\<close> raises KeyError (whose message is the quoted name) without that column, \<^verbatim>\<open>.iloc[-1]\<close> raises IndexError on
  a series without elements.
\<close>

record 'v dataframe =
  df_index :: "string list"
  df_columns :: "(string \<times> 'v list) list"

definition df_empty :: "'v dataframe \<Rightarrow> bool" where
  "df_empty df = (df_index df = [] \<or> df_columns df = [])"

definition df_getitem :: "'v dataframe \<Rightarrow> string \<Rightarrow> pyexc + 'v list" where
  "df_getitem df c =
     (case map_of (df_columns df) c of
        None \<Rightarrow> Inl (PyException ''KeyError'' (CHR 0x27 # c @ [CHR 0x27]))
      | Some col \<Rightarrow> Inr col)"

definition iloc_last :: "'v list \<Rightarrow> pyexc + 'v" where
  "iloc_last col =
     (if col = [] then Inl (PyException ''IndexError'' ''single positional indexer is out-of-bounds'')
      else Inr (last col))"

record 'v ticker =
  history :: "string \<Rightarrow> pyexc + 'v dataframe"
  info :: "pyexc + 'v pydict"

record datetime =
  year :: nat
  month :: nat
  day :: nat
  hour :: nat
  minute :: nat
  second :: nat

datatype google_search = GoogleSearchObj "int pydict"

record news_source =
  src_name :: "string option"
  src_authors :: "string list option"

record article =
  art_title :: "string option"
  art_source :: "news_source option"
  art_snippet :: "string option"
  art_description :: "string option"
  art_link_text :: "string option"
  art_date :: "string option"

record search_results =
  news_results :: "article list option"

text \<open>
  The environment. \<open>datetime_now w i\<close> is what \<^verbatim>\<open>datetime.now()\<close> answers at step \<open>i\<close> of a
  call (the only step of \<^verbatim>\<open>get_stock_data\<close>, the \<open>i\<close>-th loop iteration of
  \<^verbatim>\<open>get_news\<close>); \<open>strftime\<close> and \<open>strptime\<close> are the library's formatting and parsing,
  taken as they are. A search result follows SerpAPI's schema for Google News: every field
  is a string (or a list of strings) and may be absent (\<open>None\<close>).
\<close>

record 'v world =
  yf_Ticker :: "string \<Rightarrow> pyexc + 'v ticker"
  datetime_now :: "nat \<Rightarrow> datetime"
  strftime :: "datetime \<Rightarrow> string \<Rightarrow> string"
  strptime :: "string \<Rightarrow> string \<Rightarrow> pyexc + datetime"
  getenv :: "string \<Rightarrow> string option"
  GoogleSearch_new :: "int pydict \<Rightarrow> pyexc + google_search"
  get_dict :: "google_search \<Rightarrow> pyexc + search_results"

section \<open>Python string operations used by get_news\<close>

definition py_isspace :: "char \<Rightarrow> bool" where
  \<comment> \<open>\<^verbatim>\<open>str.isspace\<close> on one character, for the code points below 256\<close>
  "py_isspace c = ((of_char c :: nat) \<in> {9, 10, 11, 12, 13, 28, 29, 30, 31, 32, 133, 160})"

definition py_lstrip :: "string \<Rightarrow> string" where
  "py_lstrip s = dropWhile py_isspace s"

definition py_rstrip :: "string \<Rightarrow> string" where
  "py_rstrip s = rev (dropWhile py_isspace (rev s))"

definition py_strip :: "string \<Rightarrow> string" where
  \<comment> \<open>\<^verbatim>\<open>s.strip()\<close>\<close>
  "py_strip s = py_rstrip (py_lstrip s)"

fun py_split :: "char \<Rightarrow> string \<Rightarrow> string list" where
  \<comment> \<open>\<^verbatim>\<open>s.split(sep)\<close> for a separator of one character\<close>
  "py_split sep [] = [[]]"
| "py_split sep (c # cs) =
     (if c = sep then [] # py_split sep cs
      else (case py_split sep cs of [] \<Rightarrow> [[c]] | p # ps \<Rightarrow> (c # p) # ps))"

fun py_join :: "string \<Rightarrow> string list \<Rightarrow> string" where
  \<comment> \<open>\<^verbatim>\<open>sep.join(xs)\<close>\<close>
  "py_join sep [] = []"
| "py_join sep [x] = x"
| "py_join sep (x # y # ys) = x @ sep @ py_join sep (y # ys)"

fun max_len :: "string \<Rightarrow> string list \<Rightarrow> string" where
  \<comment> \<open>\<^verbatim>\<open>max(xs, key=len)\<close> on a list that starts with \<open>m\<close>: a later element replaces the
      running maximum only when it is strictly longer\<close>
  "max_len m [] = m"
| "max_len m (x # xs) = max_len (if length m < length x then x else m) xs"

fun py_in :: "string \<Rightarrow> string \<Rightarrow> bool" where
  \<comment> \<open>\<^verbatim>\<open>p in s\<close> on strings\<close>
  "py_in p [] = (p = [])"
| "py_in p (c # cs) = (prefix p (c # cs) \<or> py_in p cs)"

section \<open>get_stock_data\<close>


text \<open>
  The \<^verbatim>\<open>try\<close> block of \<^verbatim>\<open>get_stock_data\<close> (lines 42 to 62): the first exception raised
  ends it.
\<close>

definition get_stock_data_try :: "'v world \<Rightarrow> string \<Rightarrow> pyexc + 'v pydict" where
  "get_stock_data_try w symbol =
     (case yf_Ticker w symbol of
        Inl e \<Rightarrow> Inl e
      | Inr stock \<Rightarrow>
     (case history stock ''1d'' of
        Inl e \<Rightarrow> Inl e
      | Inr price_info \<Rightarrow>
     (case (if \<not> df_empty price_info
            then (case df_getitem price_info ''Close'' of
                    Inl e \<Rightarrow> Inl e
                  | Inr col \<Rightarrow>
                      (case iloc_last col of Inl e \<Rightarrow> Inl e | Inr x \<Rightarrow> Inr (PyObj x)))
            else Inr PyNone) of
        Inl e \<Rightarrow> Inl e
      | Inr current_price \<Rightarrow>
     (case info stock of
        Inl e \<Rightarrow> Inl e
      | Inr info' \<Rightarrow>
          Inr [(''price'', current_price),
               (''volume'', dict_get info' ''regularMarketVolume''),
               (''pe_ratio'', dict_get info' ''forwardPE''),
               (''market_cap'', dict_get info' ''marketCap''),
               (''last_updated'',
                  PyStr (strftime w (datetime_now w 0) ''%Y-%m-%d %H:%M:%S''))]))))"

text \<open>
  The whole function: the handler \<^verbatim>\<open>except Exception as e\<close> (lines 64 to 72) prints one
  line and returns the error dictionary. The result is the pair of the lines printed and
  what the call returns or raises.
\<close>

definition get_stock_data :: "'v world \<Rightarrow> string \<Rightarrow> string list \<times> (pyexc + 'v pydict)" where
  "get_stock_data w symbol =
     (case get_stock_data_try w symbol of
        Inr d \<Rightarrow> ([], Inr d)
      | Inl e \<Rightarrow>
          ([''Error fetching stock data for '' @ symbol @ '': '' @ exc_str e],
           Inr [(''price'', PyNone),
                (''volume'', PyNone),
                (''pe_ratio'', PyNone),
                (''market_cap'', PyNone),
                (''error'', PyStr (exc_str e))]))"

section \<open>get_news\<close>

definition news_params :: "'v world \<Rightarrow> string \<Rightarrow> int pydict" where
  \<comment> \<open>the dictionary \<^verbatim>\<open>params\<close> (lines 77 to 84)\<close>
  "news_params w query =
     [(''engine'', PyStr ''google_news''),
      (''q'', PyStr query),
      (''gl'', PyStr ''us''),
      (''hl'', PyStr ''en''),
      (''api_key'', (case getenv w ''SERPAPI_KEY'' of None \<Rightarrow> PyNone | Some k \<Rightarrow> PyStr k)),
      (''num'', PyObj 3)]"

definition format_date :: "'v world \<Rightarrow> nat \<Rightarrow> string \<Rightarrow> string" where
  \<comment> \<open>lines 110 to 117: the inner \<^verbatim>\<open>try\<close> with its bare \<^verbatim>\<open>except\<close>\<close>
  "format_date w i date_str =
     (case (if date_str \<noteq> []
            then (case py_split CHR '','' date_str of
                    [] \<Rightarrow> Inl (PyException ''IndexError'' ''list index out of range'')
                  | part # _ \<Rightarrow>
                      (case strptime w part ''%m/%d/%Y'' of
                         Inl e \<Rightarrow> Inl e
                       | Inr date_obj \<Rightarrow> Inr (strftime w date_obj ''%Y-%m-%d'')))
            else Inr (strftime w (datetime_now w i) ''%Y-%m-%d'')) of
        Inr formatted_date \<Rightarrow> formatted_date
      | Inl e \<Rightarrow> date_str)"

definition summary_candidates :: "article \<Rightarrow> string list" where
  \<comment> \<open>lines 100 to 105\<close>
  "summary_candidates a =
     filter (\<lambda>s. s \<noteq> [])
       [case art_snippet a of None \<Rightarrow> [] | Some s \<Rightarrow> s,
        case art_description a of None \<Rightarrow> [] | Some s \<Rightarrow> s,
        case art_link_text a of None \<Rightarrow> [] | Some s \<Rightarrow> s]"

definition article_title :: "article \<Rightarrow> string" where
  \<comment> \<open>line 93\<close>
  "article_title a = py_strip (case art_title a of None \<Rightarrow> [] | Some t \<Rightarrow> t)"

definition article_summary :: "article \<Rightarrow> string" where
  \<comment> \<open>line 106\<close>
  "article_summary a =
     (case summary_candidates a of [] \<Rightarrow> article_title a | c # cs \<Rightarrow> max_len c cs)"

definition author_text :: "article \<Rightarrow> string" where
  \<comment> \<open>lines 94 to 97\<close>
  "author_text a =
     (let source = (case art_source a of
                      None \<Rightarrow> \<lparr>src_name = None, src_authors = None\<rparr>
                    | Some s \<Rightarrow> s);
          authors = (case src_authors source of None \<Rightarrow> [] | Some xs \<Rightarrow> xs)
      in if authors \<noteq> [] then ''By '' @ py_join '', '' authors else [])"

definition source_name :: "article \<Rightarrow> string" where
  \<comment> \<open>lines 94 and 95\<close>
  "source_name a =
     (let source = (case art_source a of
                      None \<Rightarrow> \<lparr>src_name = None, src_authors = None\<rparr>
                    | Some s \<Rightarrow> s)
      in case src_name source of None \<Rightarrow> [] | Some n \<Rightarrow> n)"

definition news_item :: "'v world \<Rightarrow> nat \<Rightarrow> article \<Rightarrow> (string \<times> string) list" where
  \<comment> \<open>the dictionary appended for one article (lines 119 to 126)\<close>
  "news_item w i a =
     [(''title'', article_title a),
      (''date'', format_date w i (case art_date a of None \<Rightarrow> [] | Some d \<Rightarrow> d)),
      (''summary'', py_strip (article_summary a @ '' '' @ author_text a)),
      (''source'', source_name a)]"

fun news_loop ::
  "'v world \<Rightarrow> nat \<Rightarrow> article list \<Rightarrow> (string \<times> string) list list \<Rightarrow> (string \<times> string) list list"
where
  \<comment> \<open>the \<^verbatim>\<open>for\<close> loop, from iteration \<open>i\<close> on, with the items appended so far\<close>
  "news_loop w i [] news_items = news_items"
| "news_loop w i (a # as) news_items = news_loop w (Suc i) as (news_items @ [news_item w i a])"

definition get_news_try :: "'v world \<Rightarrow> string \<Rightarrow> pyexc + (string \<times> string) list list" where
  \<comment> \<open>the outer \<^verbatim>\<open>try\<close> block (lines 86 to 128)\<close>
  "get_news_try w query =
     (case GoogleSearch_new w (news_params w query) of
        Inl e \<Rightarrow> Inl e
      | Inr search \<Rightarrow>
     (case get_dict w search of
        Inl e \<Rightarrow> Inl e
      | Inr results \<Rightarrow>
          Inr (news_loop w 0 (case news_results results of None \<Rightarrow> [] | Some as \<Rightarrow> as) [])))"

definition get_news ::
  "'v world \<Rightarrow> string \<Rightarrow> string list \<times> (pyexc + (string \<times> string) list list)" where
  \<comment> \<open>with the handler of lines 130 to 132\<close>
  "get_news w query =
     (case get_news_try w query of
        Inr news_items \<Rightarrow> ([], Inr news_items)
      | Inl e \<Rightarrow> ([''Error fetching news: '' @ exc_str e], Inr []))"

section \<open>The swarm that main builds\<close>

text \<open>
  An \<^verbatim>\<open>AssistantAgent\<close> as \<^verbatim>\<open>main\<close> constructs it: its name, its handoff targets and
  the names of its tools (the model client and the system message play no part below).
\<close>

record assistant_agent =
  name :: string
  handoffs :: "string list"
  tools :: "string list"

definition planner :: assistant_agent where
  "planner = \<lparr>name = ''planner'',
              handoffs = [''financial_analyst'', ''news_analyst'', ''writer''],
              tools = []\<rparr>"

definition financial_analyst :: assistant_agent where
  "financial_analyst = \<lparr>name = ''financial_analyst'',
                        handoffs = [''planner''],
                        tools = [''get_stock_data'']\<rparr>"

definition news_analyst :: assistant_agent where
  "news_analyst = \<lparr>name = ''news_analyst'',
                   handoffs = [''planner''],
                   tools = [''get_news'']\<rparr>"

definition writer :: assistant_agent where
  "writer = \<lparr>name = ''writer'', handoffs = [''planner''], tools = []\<rparr>"

definition participants :: "assistant_agent list" where
  "participants = [planner, financial_analyst, news_analyst, writer]"

definition task :: string where
  \<comment> \<open>the task of line 192, as the bytes of its UTF-8 encoding\<close>
  "task =
     [CHR 0xE4, CHR 0xB8, CHR 0xBA, CHR 0xE7, CHR 0x89, CHR 0xB9, CHR 0xE6, CHR 0x96,
      CHR 0xAF, CHR 0xE6, CHR 0x8B, CHR 0x89, CHR ''('', CHR ''T'', CHR ''S'',
      CHR ''L'', CHR ''A'', CHR '')'', CHR 0xE8, CHR 0x82, CHR 0xA1, CHR 0xE7,
      CHR 0xA5, CHR 0xA8, CHR 0xE8, CHR 0xBF, CHR 0x9B, CHR 0xE8, CHR 0xA1, CHR 0x8C,
      CHR 0xE5, CHR 0xB8, CHR 0x82, CHR 0xE5, CHR 0x9C, CHR 0xBA, CHR 0xE7, CHR 0xA0,
      CHR 0x94, CHR 0xE7, CHR 0xA9, CHR 0xB6, CHR 0xEF, CHR 0xBC, CHR 0x8C, CHR 0xE5,
      CHR 0xB9, CHR 0xB6, CHR 0xE7, CHR 0x94, CHR 0xA8, CHR 0xE4, CHR 0xB8, CHR 0xAD,
      CHR 0xE6, CHR 0x96, CHR 0x87, CHR 0xE5, CHR 0x9B, CHR 0x9E, CHR 0xE7, CHR 0xAD,
      CHR 0x94]"

section \<open>The orchestration engine\<close>

text \<open>
  Modelled from the spec: \<^verbatim>\<open>Swarm\<close>, \<^verbatim>\<open>AssistantAgent\<close> and \<^verbatim>\<open>TextMentionTermination\<close>
  are imported by \<^verbatim>\<open>swarm.py\<close>; their code is not part of the source files. The types
  and definitions of this section follow the specification's sections 3 and 4 instead. A message is kept as its
  content (its position in the transcript is its id); the message that carries the task
  has a content of its own, \<open>Task\<close>, so that the text of an agent and the task of the user
  stay apart. The language model is a function from the transcript and the agent to a
  reply; a fuel argument bounds the number of turns of the loop.
\<close>

record tool_call =
  toolName :: string
  arguments :: "(string \<times> string) list"
  callId :: nat

datatype error_kind = ToolNotAllowed | ToolNotFound | ToolExecutionError pyexc | ToolTimeout

record 'r tool_result =
  result_callId :: nat
  outcome :: "error_kind + 'r"

datatype 'r content =
    Task string
  | Text string
  | ToolCall tool_call
  | ToolResult "'r tool_result"
  | HandoffDirective string
  | InvalidTargetError string
  | IgnoredTargetsNote "string list"

record 'r conversation_state =
  transcript :: "'r content list"
  activeAgent :: string
  turnCount :: nat
  terminated :: bool

datatype termination_condition =
    TextMention string
  | TurnLimit nat
  | AnyOf termination_condition termination_condition

record reply =
  reply_text :: "string option"
  reply_tool_calls :: "tool_call list"
  reply_handoffs :: "string list"

datatype handoff_outcome = Stay | TransferTo string | InvalidTarget string

datatype fatal = OrchestrationAborted

type_synonym 'r catalog = "string \<Rightarrow> ((string \<times> string) list \<Rightarrow> pyexc + 'r) option"

type_synonym 'r model_client = "'r content list \<Rightarrow> assistant_agent \<Rightarrow> reply"

fun mentions :: "string \<Rightarrow> 'r content \<Rightarrow> bool" where
  \<comment> \<open>Modelled from the spec: section 4.4, TextMention, whose code (the library's
      TextMentionTermination) is missing: a message content contains the pattern as an
      exact substring; the agent's own text counts, the user's task does not\<close>
  "mentions p (Text t) = py_in p t"
| "mentions p _ = False"

fun satisfied :: "termination_condition \<Rightarrow> 'r conversation_state \<Rightarrow> bool" where
  \<comment> \<open>Modelled from the spec: section 4.4, the termination conditions as predicates on the
      conversation state, combined by OR (the library's conditions are missing; External,
      an out-of-band signal, is left out)\<close>
  "satisfied (TextMention p) st = list_ex (mentions p) (transcript st)"
| "satisfied (TurnLimit m) st = (m \<le> turnCount st)"
| "satisfied (AnyOf c d) st = (satisfied c st \<or> satisfied d st)"

definition text_termination :: termination_condition where
  \<comment> \<open>lines 184 and 185: the text mention of TERMINATE, the only condition of the run
      (line 185 binds the name \<^verbatim>\<open>termination\<close> to the same object)\<close>
  "text_termination = TextMention ''TERMINATE''"

definition route :: "reply \<Rightarrow> assistant_agent \<Rightarrow> handoff_outcome" where
  \<comment> \<open>Modelled from the spec: section 4.2, HandoffRouter (the library's Swarm is missing):
      only the first target a reply names is honored, and it is valid when it is one of
      the issuing agent's handoff targets\<close>
  "route r issuingAgent =
     (case reply_handoffs r of
        [] \<Rightarrow> Stay
      | t # _ \<Rightarrow> if t \<in> set (handoffs issuingAgent) then TransferTo t else InvalidTarget t)"

definition invoke :: "tool_call \<Rightarrow> 'r catalog \<Rightarrow> string list \<Rightarrow> 'r tool_result" where
  \<comment> \<open>Modelled from the spec: section 4.3, ToolInvoker (the library's tool execution is
      missing): one result per call; the timeout, a matter of real time, is left out\<close>
  "invoke call catalog allowed =
     \<lparr>result_callId = callId call,
      outcome =
        (if toolName call \<notin> set allowed then Inl ToolNotAllowed
         else (case catalog (toolName call) of
                 None \<Rightarrow> Inl ToolNotFound
               | Some body \<Rightarrow>
                   (case body (arguments call) of
                      Inl e \<Rightarrow> Inl (ToolExecutionError e)
                    | Inr v \<Rightarrow> Inr v)))\<rparr>"

definition ignored_note :: "string list \<Rightarrow> 'r content list" where
  \<comment> \<open>Modelled from the spec: section 4.2, the note for the targets that are not honored\<close>
  "ignored_note targets = (case targets of t # u # us \<Rightarrow> [IgnoredTargetsNote (u # us)] | _ \<Rightarrow> [])"

definition turn ::
  "'r model_client \<Rightarrow> 'r catalog \<Rightarrow> assistant_agent list \<Rightarrow> termination_condition \<Rightarrow>
   'r conversation_state \<Rightarrow> fatal + 'r conversation_state" where
  \<comment> \<open>Modelled from the spec: section 4.1, steps 2a to 2f of SwarmOrchestrator (the library's
      Swarm is missing): one pass of the loop body\<close>
  "turn model catalog agents cond st =
     (case find (\<lambda>a. name a = activeAgent st) agents of
        None \<Rightarrow> Inl OrchestrationAborted
      | Some a \<Rightarrow>
          (let r = model (transcript st) a;
               said = (case reply_text r of None \<Rightarrow> [] | Some t \<Rightarrow> [Text t]);
               st1 =
                 (if reply_tool_calls r \<noteq> []
                  then st\<lparr>transcript := transcript st @ said
                            @ map ToolCall (reply_tool_calls r)
                            @ map (\<lambda>c. ToolResult (invoke c catalog (tools a))) (reply_tool_calls r)\<rparr>
                  else (case route r a of
                          Stay \<Rightarrow> st\<lparr>transcript := transcript st @ said\<rparr>
                        | TransferTo t \<Rightarrow>
                            st\<lparr>transcript := transcript st @ said @ [HandoffDirective t]
                                  @ ignored_note (reply_handoffs r),
                               activeAgent := t\<rparr>
                        | InvalidTarget t \<Rightarrow>
                            st\<lparr>transcript := transcript st @ said @ [InvalidTargetError t]
                                  @ ignored_note (reply_handoffs r)\<rparr>));
               st2 = st1\<lparr>turnCount := turnCount st + 1\<rparr>
           in Inr (st2\<lparr>terminated := satisfied cond st2\<rparr>)))"

fun run_loop ::
  "'r model_client \<Rightarrow> 'r catalog \<Rightarrow> assistant_agent list \<Rightarrow> termination_condition \<Rightarrow>
   nat \<Rightarrow> 'r conversation_state \<Rightarrow> (fatal + 'r conversation_state) option" where
  \<comment> \<open>Modelled from the spec: section 4.1, step 2, "loop while not terminated" (the
      library's Swarm is missing); \<open>None\<close> when the fuel ends before the loop does\<close>
  "run_loop model catalog agents cond 0 st = (if terminated st then Some (Inr st) else None)"
| "run_loop model catalog agents cond (Suc k) st =
     (if terminated st then Some (Inr st)
      else (case turn model catalog agents cond st of
              Inl f \<Rightarrow> Some (Inl f)
            | Inr st' \<Rightarrow> run_loop model catalog agents cond k st'))"

definition valid_configuration :: "assistant_agent list \<Rightarrow> string \<Rightarrow> bool" where
  \<comment> \<open>Modelled from the spec: sections 3 and 7, the configuration checked at construction
      time: unique names, handoff targets among the registered names, no self-handoff\<close>
  "valid_configuration agents initialAgent =
     (distinct (map name agents) \<and> initialAgent \<in> set (map name agents) \<and>
      list_all (\<lambda>a. list_all (\<lambda>t. t \<in> set (map name agents)) (handoffs a) \<and>
                     name a \<notin> set (handoffs a)) agents)"

definition run ::
  "'r model_client \<Rightarrow> 'r catalog \<Rightarrow> nat \<Rightarrow> string \<Rightarrow> assistant_agent list \<Rightarrow> string \<Rightarrow>
   termination_condition \<Rightarrow> (fatal + 'r conversation_state) option" where
  \<comment> \<open>Modelled from the spec: section 4.1, the contract of \<open>run\<close>, steps 1 to 3\<close>
  "run model catalog fuel task_text agents initialAgent cond =
     (if \<not> valid_configuration agents initialAgent then Some (Inl OrchestrationAborted)
      else run_loop model catalog agents cond fuel
             \<lparr>transcript = [Task task_text], activeAgent = initialAgent,
              turnCount = 0, terminated = False\<rparr>)"

section \<open>Environments, articles and a scripted model to run the definitions on\<close>

definition offline_world :: "int world" where
  "offline_world =
     \<lparr>yf_Ticker = (\<lambda>s. Inl (PyException ''ConnectionError'' ''no route to host'')),
      datetime_now = (\<lambda>i. \<lparr>year = 2025, month = 1, day = 15, hour = 9, minute = 30, second = 0\<rparr>),
      strftime = (\<lambda>d f. ''2025-01-15''),
      strptime = (\<lambda>s f. Inl (PyException ''ValueError'' ''does not match format'')),
      getenv = (\<lambda>k. None),
      GoogleSearch_new = (\<lambda>p. Inr (GoogleSearchObj p)),
      get_dict = (\<lambda>s. Inl (PyException ''ConnectionError'' ''no route to host''))\<rparr>"

definition tsla_ticker :: "int ticker" where
  "tsla_ticker =
     \<lparr>history = (\<lambda>p. Inr \<lparr>df_index = [''2025-01-14'', ''2025-01-15''],
                            df_columns = [(''Open'', [248, 249]), (''Close'', [249, 250])]\<rparr>),
      info = Inr [(''regularMarketVolume'', PyObj 1000), (''marketCap'', PyObj 800)]\<rparr>"

definition art_dated :: article where
  "art_dated =
     \<lparr>art_title = Some '' Tesla rallies '',
      art_source = Some \<lparr>src_name = Some ''Reuters'', src_authors = Some [''A. Bell'', ''C. Dorn'']\<rparr>,
      art_snippet = Some ''short'',
      art_description = Some ''a longer text'',
      art_link_text = None,
      art_date = Some ''12/25/2024, 10:30 AM, +0000 UTC''\<rparr>"

definition art_padded :: article where
  "art_padded =
     \<lparr>art_title = Some ''T'',
      art_source = None,
      art_snippet = Some '' a'',
      art_description = None,
      art_link_text = None,
      art_date = None\<rparr>"

definition art_relative :: article where
  "art_relative =
     \<lparr>art_title = None,
      art_source = Some \<lparr>src_name = None, src_authors = None\<rparr>,
      art_snippet = None,
      art_description = None,
      art_link_text = None,
      art_date = Some ''2 days ago''\<rparr>"

definition market_world :: "int world" where
  "market_world =
     \<lparr>yf_Ticker = (\<lambda>s. if s = ''TSLA'' then Inr tsla_ticker
                         else Inl (PyException ''KeyError'' s)),
      datetime_now = (\<lambda>i. \<lparr>year = 2025, month = 1, day = 15, hour = 9, minute = 30, second = 0\<rparr>),
      strftime = (\<lambda>d f. if f = ''%Y-%m-%d''
                          then (if year d = 2024 then ''2024-12-25'' else ''2025-01-15'')
                          else ''2025-01-15 09:30:00''),
      strptime = (\<lambda>s f. if s = ''12/25/2024'' \<and> f = ''%m/%d/%Y''
                          then Inr \<lparr>year = 2024, month = 12, day = 25,
                                    hour = 0, minute = 0, second = 0\<rparr>
                          else Inl (PyException ''ValueError'' ''does not match format'')),
      getenv = (\<lambda>k. if k = ''SERPAPI_KEY'' then Some ''k3y'' else None),
      GoogleSearch_new = (\<lambda>p. Inr (GoogleSearchObj p)),
      get_dict = (\<lambda>s. Inr \<lparr>news_results = Some [art_dated, art_padded, art_relative]\<rparr>)\<rparr>"

definition quiet_world :: "int world" where
  "quiet_world = market_world\<lparr>get_dict := (\<lambda>s. Inr \<lparr>news_results = None\<rparr>)\<rparr>"

definition padded_world :: "int world" where
  "padded_world = market_world\<lparr>get_dict := (\<lambda>s. Inr \<lparr>news_results = Some [art_padded]\<rparr>)\<rparr>"

definition no_tools :: "unit catalog" where
  "no_tools = (\<lambda>n. None)"

definition scripted_model :: "unit model_client" where
  \<comment> \<open>the planner hands off to the writer, the writer first names an agent it may not hand
      off to, then hands back, and the planner ends the run\<close>
  "scripted_model tr a =
     (if name a = ''planner''
      then (if length tr \<le> 1
            then \<lparr>reply_text = Some ''plan'', reply_tool_calls = [], reply_handoffs = [''writer'']\<rparr>
            else \<lparr>reply_text = Some ''done TERMINATE'', reply_tool_calls = [], reply_handoffs = []\<rparr>)
      else (if length tr \<le> 3
            then \<lparr>reply_text = Some ''report'', reply_tool_calls = [],
                  reply_handoffs = [''news_analyst'']\<rparr>
            else \<lparr>reply_text = Some ''report'', reply_tool_calls = [],
                  reply_handoffs = [''planner'']\<rparr>))"



definition ticker_world :: "int ticker \<Rightarrow> int world" where
  \<comment> \<open>the answering environment, with \<open>t\<close> as the object that \<^verbatim>\<open>yf.Ticker\<close> returns\<close>
  "ticker_world t = market_world\<lparr>yf_Ticker := (\<lambda>s. Inr t)\<rparr>"




section \<open>Properties of get_stock_data\<close>

text \<open>
  Claim C1. For every symbol, \<^verbatim>\<open>get_stock_data\<close> returns a dictionary and raises nothing.
  Whichever step of the fetch raises (the construction of the ticker, the history request,
  the lookup of the Close column, the read of its last element, the info request), and
  in general whenever an exception ends the \<^verbatim>\<open>try\<close> block, the dictionary returned has
  \<^verbatim>\<open>None\<close> under price, volume, pe_ratio and market_cap and that exception's message under
  error.
\<close>

theorem get_stock_data_never_raises:
  "(\<exists>d. snd (get_stock_data w symbol) = Inr d) \<and>
   (yf_Ticker w symbol = Inl e \<longrightarrow>
      snd (get_stock_data w symbol) =
        Inr [(''price'', PyNone), (''volume'', PyNone), (''pe_ratio'', PyNone),
             (''market_cap'', PyNone), (''error'', PyStr (exc_str e))]) \<and>
   (yf_Ticker w symbol = Inr stock \<and> history stock ''1d'' = Inl e \<longrightarrow>
      snd (get_stock_data w symbol) =
        Inr [(''price'', PyNone), (''volume'', PyNone), (''pe_ratio'', PyNone),
             (''market_cap'', PyNone), (''error'', PyStr (exc_str e))]) \<and>
   (yf_Ticker w symbol = Inr stock \<and> history stock ''1d'' = Inr price_info \<and>
    \<not> df_empty price_info \<and> map_of (df_columns price_info) ''Close'' = None \<longrightarrow>
      snd (get_stock_data w symbol) =
        Inr [(''price'', PyNone), (''volume'', PyNone), (''pe_ratio'', PyNone),
             (''market_cap'', PyNone), (''error'', PyStr (CHR 0x27 # ''Close'' @ [CHR 0x27]))]) \<and>
   (yf_Ticker w symbol = Inr stock \<and> history stock ''1d'' = Inr price_info \<and>
    \<not> df_empty price_info \<and> map_of (df_columns price_info) ''Close'' = Some [] \<longrightarrow>
      snd (get_stock_data w symbol) =
        Inr [(''price'', PyNone), (''volume'', PyNone), (''pe_ratio'', PyNone),
             (''market_cap'', PyNone),
             (''error'', PyStr ''single positional indexer is out-of-bounds'')]) \<and>
   (yf_Ticker w symbol = Inr stock \<and> history stock ''1d'' = Inr price_info \<and>
    (df_empty price_info \<or>
     (\<exists>col. map_of (df_columns price_info) ''Close'' = Some col \<and> col \<noteq> [])) \<and>
    info stock = Inl e \<longrightarrow>
      snd (get_stock_data w symbol) =
        Inr [(''price'', PyNone), (''volume'', PyNone), (''pe_ratio'', PyNone),
             (''market_cap'', PyNone), (''error'', PyStr (exc_str e))]) \<and>
   (get_stock_data_try w symbol = Inl e \<longrightarrow>
      snd (get_stock_data w symbol) =
        Inr [(''price'', PyNone), (''volume'', PyNone), (''pe_ratio'', PyNone),
             (''market_cap'', PyNone), (''error'', PyStr (exc_str e))])"
proof (intro conjI impI)
  show "\<exists>d. snd (get_stock_data w symbol) = Inr d"
    by (cases "get_stock_data_try w symbol") (simp_all add: get_stock_data_def)
next
  assume "yf_Ticker w symbol = Inl e"
  then have "get_stock_data_try w symbol = Inl e"
    by (simp add: get_stock_data_try_def)
  then show "snd (get_stock_data w symbol) =
        Inr [(''price'', PyNone), (''volume'', PyNone), (''pe_ratio'', PyNone),
             (''market_cap'', PyNone), (''error'', PyStr (exc_str e))]"
    by (simp add: get_stock_data_def)
next
  assume "yf_Ticker w symbol = Inr stock \<and> history stock ''1d'' = Inl e"
  then have "get_stock_data_try w symbol = Inl e"
    by (simp add: get_stock_data_try_def)
  then show "snd (get_stock_data w symbol) =
        Inr [(''price'', PyNone), (''volume'', PyNone), (''pe_ratio'', PyNone),
             (''market_cap'', PyNone), (''error'', PyStr (exc_str e))]"
    by (simp add: get_stock_data_def)
next
  assume "yf_Ticker w symbol = Inr stock \<and> history stock ''1d'' = Inr price_info \<and>
    \<not> df_empty price_info \<and> map_of (df_columns price_info) ''Close'' = None"
  then have "get_stock_data_try w symbol =
               Inl (PyException ''KeyError'' (CHR 0x27 # ''Close'' @ [CHR 0x27]))"
    by (simp add: get_stock_data_try_def df_getitem_def)
  then show "snd (get_stock_data w symbol) =
        Inr [(''price'', PyNone), (''volume'', PyNone), (''pe_ratio'', PyNone),
             (''market_cap'', PyNone), (''error'', PyStr (CHR 0x27 # ''Close'' @ [CHR 0x27]))]"
    by (simp add: get_stock_data_def)
next
  assume "yf_Ticker w symbol = Inr stock \<and> history stock ''1d'' = Inr price_info \<and>
    \<not> df_empty price_info \<and> map_of (df_columns price_info) ''Close'' = Some []"
  then have "get_stock_data_try w symbol =
               Inl (PyException ''IndexError'' ''single positional indexer is out-of-bounds'')"
    by (simp add: get_stock_data_try_def df_getitem_def iloc_last_def)
  then show "snd (get_stock_data w symbol) =
        Inr [(''price'', PyNone), (''volume'', PyNone), (''pe_ratio'', PyNone),
             (''market_cap'', PyNone),
             (''error'', PyStr ''single positional indexer is out-of-bounds'')]"
    by (simp add: get_stock_data_def)
next
  assume "yf_Ticker w symbol = Inr stock \<and> history stock ''1d'' = Inr price_info \<and>
    (df_empty price_info \<or>
     (\<exists>col. map_of (df_columns price_info) ''Close'' = Some col \<and> col \<noteq> [])) \<and>
    info stock = Inl e"
  then have "get_stock_data_try w symbol = Inl e"
    by (auto simp: get_stock_data_try_def df_getitem_def iloc_last_def)
  then show "snd (get_stock_data w symbol) =
        Inr [(''price'', PyNone), (''volume'', PyNone), (''pe_ratio'', PyNone),
             (''market_cap'', PyNone), (''error'', PyStr (exc_str e))]"
    by (simp add: get_stock_data_def)
next
  assume "get_stock_data_try w symbol = Inl e"
  then show "snd (get_stock_data w symbol) =
        Inr [(''price'', PyNone), (''volume'', PyNone), (''pe_ratio'', PyNone),
             (''market_cap'', PyNone), (''error'', PyStr (exc_str e))]"
    by (simp add: get_stock_data_def)
qed

theorem get_stock_data_never_raises_witness:
  "snd (get_stock_data offline_world ''TSLA'') =
     Inr [(''price'', PyNone), (''volume'', PyNone), (''pe_ratio'', PyNone),
          (''market_cap'', PyNone), (''error'', PyStr ''no route to host'')] \<and>
   snd (get_stock_data
          (ticker_world (tsla_ticker\<lparr>history :=
             (\<lambda>p. Inl (PyException ''HTTPError'' ''502 Bad Gateway''))\<rparr>)) ''TSLA'') =
     Inr [(''price'', PyNone), (''volume'', PyNone), (''pe_ratio'', PyNone),
          (''market_cap'', PyNone), (''error'', PyStr ''502 Bad Gateway'')] \<and>
   snd (get_stock_data
          (ticker_world (tsla_ticker\<lparr>history :=
             (\<lambda>p. Inr \<lparr>df_index = [''2025-01-15''],
                         df_columns = [(''Open'', [249])]\<rparr>)\<rparr>)) ''TSLA'') =
     Inr [(''price'', PyNone), (''volume'', PyNone), (''pe_ratio'', PyNone),
          (''market_cap'', PyNone), (''error'', PyStr (CHR 0x27 # ''Close'' @ [CHR 0x27]))] \<and>
   snd (get_stock_data
          (ticker_world (tsla_ticker\<lparr>history :=
             (\<lambda>p. Inr \<lparr>df_index = [''2025-01-15''],
                         df_columns = [(''Close'', [])]\<rparr>)\<rparr>)) ''TSLA'') =
     Inr [(''price'', PyNone), (''volume'', PyNone), (''pe_ratio'', PyNone),
          (''market_cap'', PyNone),
          (''error'', PyStr ''single positional indexer is out-of-bounds'')] \<and>
   snd (get_stock_data
          (ticker_world (tsla_ticker\<lparr>info :=
             Inl (PyException ''JSONDecodeError'' ''Expecting value'')\<rparr>)) ''TSLA'') =
     Inr [(''price'', PyNone), (''volume'', PyNone), (''pe_ratio'', PyNone),
          (''market_cap'', PyNone), (''error'', PyStr ''Expecting value'')]"
proof (intro conjI)
  let ?e1 = "PyException ''ConnectionError'' ''no route to host''"
  have h1: "yf_Ticker offline_world ''TSLA'' = Inl ?e1"
    by (simp add: offline_world_def)
  from get_stock_data_never_raises [of offline_world "''TSLA''" ?e1, THEN conjunct2,
      THEN conjunct1, rule_format, OF h1]
  show "snd (get_stock_data offline_world ''TSLA'') =
     Inr [(''price'', PyNone), (''volume'', PyNone), (''pe_ratio'', PyNone),
          (''market_cap'', PyNone), (''error'', PyStr ''no route to host'')]"
    by simp
next
  let ?e = "PyException ''HTTPError'' ''502 Bad Gateway''"
  let ?t = "tsla_ticker\<lparr>history := (\<lambda>p. Inl ?e)\<rparr>"
  have h: "yf_Ticker (ticker_world ?t) ''TSLA'' = Inr ?t \<and> history ?t ''1d'' = Inl ?e"
    by (simp add: ticker_world_def)
  from get_stock_data_never_raises [of "ticker_world ?t" "''TSLA''" ?e ?t, THEN conjunct2,
      THEN conjunct2, THEN conjunct1, rule_format, OF h]
  show "snd (get_stock_data (ticker_world ?t) ''TSLA'') =
     Inr [(''price'', PyNone), (''volume'', PyNone), (''pe_ratio'', PyNone),
          (''market_cap'', PyNone), (''error'', PyStr ''502 Bad Gateway'')]"
    by simp
next
  let ?df = "\<lparr>df_index = [''2025-01-15''], df_columns = [(''Open'', [249::int])]\<rparr>"
  let ?t = "tsla_ticker\<lparr>history := (\<lambda>p. Inr ?df)\<rparr>"
  have h: "yf_Ticker (ticker_world ?t) ''TSLA'' = Inr ?t \<and> history ?t ''1d'' = Inr ?df \<and>
           \<not> df_empty ?df \<and> map_of (df_columns ?df) ''Close'' = None"
    by (simp add: ticker_world_def df_empty_def)
  from get_stock_data_never_raises [of "ticker_world ?t" "''TSLA''" _ ?t ?df, THEN conjunct2,
      THEN conjunct2, THEN conjunct2, THEN conjunct1, rule_format, OF h]
  show "snd (get_stock_data (ticker_world ?t) ''TSLA'') =
     Inr [(''price'', PyNone), (''volume'', PyNone), (''pe_ratio'', PyNone),
          (''market_cap'', PyNone), (''error'', PyStr (CHR 0x27 # ''Close'' @ [CHR 0x27]))]" .
next
  let ?df = "\<lparr>df_index = [''2025-01-15''], df_columns = [(''Close'', [] :: int list)]\<rparr>"
  let ?t = "tsla_ticker\<lparr>history := (\<lambda>p. Inr ?df)\<rparr>"
  have h: "yf_Ticker (ticker_world ?t) ''TSLA'' = Inr ?t \<and> history ?t ''1d'' = Inr ?df \<and>
           \<not> df_empty ?df \<and> map_of (df_columns ?df) ''Close'' = Some []"
    by (simp add: ticker_world_def df_empty_def)
  from get_stock_data_never_raises [of "ticker_world ?t" "''TSLA''" _ ?t ?df, THEN conjunct2,
      THEN conjunct2, THEN conjunct2, THEN conjunct2, THEN conjunct1, rule_format, OF h]
  show "snd (get_stock_data (ticker_world ?t) ''TSLA'') =
     Inr [(''price'', PyNone), (''volume'', PyNone), (''pe_ratio'', PyNone),
          (''market_cap'', PyNone),
          (''error'', PyStr ''single positional indexer is out-of-bounds'')]" .
next
  let ?e = "PyException ''JSONDecodeError'' ''Expecting value''"
  let ?t = "tsla_ticker\<lparr>info := Inl ?e\<rparr>"
  let ?df = "\<lparr>df_index = [''2025-01-14'', ''2025-01-15''],
              df_columns = [(''Open'', [248, 249 :: int]), (''Close'', [249, 250])]\<rparr>"
  have h: "yf_Ticker (ticker_world ?t) ''TSLA'' = Inr ?t \<and> history ?t ''1d'' = Inr ?df \<and>
           (df_empty ?df \<or> (\<exists>col. map_of (df_columns ?df) ''Close'' = Some col \<and> col \<noteq> [])) \<and>
           info ?t = Inl ?e"
    by (simp add: ticker_world_def tsla_ticker_def)
  from get_stock_data_never_raises [of "ticker_world ?t" "''TSLA''" ?e ?t ?df, THEN conjunct2,
      THEN conjunct2, THEN conjunct2, THEN conjunct2, THEN conjunct2, THEN conjunct1,
      rule_format, OF h]
  show "snd (get_stock_data (ticker_world ?t) ''TSLA'') =
     Inr [(''price'', PyNone), (''volume'', PyNone), (''pe_ratio'', PyNone),
          (''market_cap'', PyNone), (''error'', PyStr ''Expecting value'')]"
    by simp
qed

text \<open>
  Claim C6. When no exception ends the \<^verbatim>\<open>try\<close> block, \<^verbatim>\<open>get_stock_data\<close> returns the
  dictionary built there: its keys are exactly price, volume, pe_ratio, market_cap and
  last_updated, and price is \<^verbatim>\<open>None\<close> when the one-day history is empty and the last
  value of its Close column otherwise.
\<close>

theorem get_stock_data_success:
  assumes "get_stock_data_try w symbol = Inr d"
  shows "snd (get_stock_data w symbol) = Inr d \<and>
         map fst d = [''price'', ''volume'', ''pe_ratio'', ''market_cap'', ''last_updated''] \<and>
         (\<exists>stock price_info.
            yf_Ticker w symbol = Inr stock \<and> history stock ''1d'' = Inr price_info \<and>
            (if df_empty price_info then map_of d ''price'' = Some PyNone
             else (\<exists>col. map_of (df_columns price_info) ''Close'' = Some col \<and> col \<noteq> [] \<and>
                         map_of d ''price'' = Some (PyObj (last col)))))"
  using assms
  by (auto simp: get_stock_data_def get_stock_data_try_def df_getitem_def iloc_last_def
           split: sum.splits if_splits option.splits)

theorem get_stock_data_success_witness:
  "snd (get_stock_data market_world ''TSLA'') =
     Inr [(''price'', PyObj 250), (''volume'', PyObj 1000), (''pe_ratio'', PyNone),
          (''market_cap'', PyObj 800), (''last_updated'', PyStr ''2025-01-15 09:30:00'')]"
proof -
  have h: "get_stock_data_try market_world ''TSLA'' =
     Inr [(''price'', PyObj 250), (''volume'', PyObj 1000), (''pe_ratio'', PyNone),
          (''market_cap'', PyObj 800), (''last_updated'', PyStr ''2025-01-15 09:30:00'')]"
    by (simp add: get_stock_data_try_def market_world_def tsla_ticker_def df_empty_def
        df_getitem_def iloc_last_def dict_get_def)
  from get_stock_data_success [OF h] show ?thesis by simp
qed

section \<open>The handoff lists of main\<close>

text \<open>
  Claim C2. The handoff targets of every participant of the swarm (planner,
  financial_analyst, news_analyst, writer) are names of participants, and no participant
  lists its own name.
\<close>

theorem handoffs_within_participants:
  "\<forall>a \<in> set participants.
     set (handoffs a) \<subseteq> set (map name participants) \<and> name a \<notin> set (handoffs a)"
  by (simp add: participants_def planner_def financial_analyst_def news_analyst_def writer_def)

theorem handoffs_within_participants_witness:
  "planner \<in> set participants \<and>
   set (handoffs planner) \<subseteq> {''planner'', ''financial_analyst'', ''news_analyst'', ''writer''} \<and>
   ''planner'' \<notin> set (handoffs planner)"
proof -
  have h: "planner \<in> set participants"
    by (simp add: participants_def)
  have n: "set (map name participants) =
             {''planner'', ''financial_analyst'', ''news_analyst'', ''writer''}"
    by (simp add: participants_def planner_def financial_analyst_def news_analyst_def
        writer_def)
  have p: "name planner = ''planner''"
    by (simp add: planner_def)
  from handoffs_within_participants h
  have "set (handoffs planner) \<subseteq> set (map name participants) \<and>
        name planner \<notin> set (handoffs planner)"
    by blast
  with h show ?thesis
    unfolding n p by blast
qed

section \<open>Properties of the string operations\<close>

lemma py_split_first: "\<exists>ps. py_split sep s = takeWhile (\<lambda>c. c \<noteq> sep) s # ps"
  by (induction s) (auto split: list.splits)

lemma max_len_mem: "max_len m xs \<in> set (m # xs)"
  by (induction xs arbitrary: m) auto

lemma max_len_ge_start: "length m \<le> length (max_len m xs)"
proof (induction xs arbitrary: m)
  case Nil
  then show ?case by simp
next
  case (Cons x xs)
  from Cons.IH [of x] Cons.IH [of m] show ?case by simp
qed

lemma max_len_ge: "c \<in> set (m # xs) \<Longrightarrow> length c \<le> length (max_len m xs)"
proof (induction xs arbitrary: m)
  case Nil
  then show ?case by simp
next
  case (Cons x xs)
  from Cons.prems consider "c = m" | "c = x" | "c \<in> set xs" by auto
  then show ?case
  proof cases
    case 1
    then show ?thesis using max_len_ge_start [of m "x # xs"] by simp
  next
    case 2
    have "length x \<le> length (if length m < length x then x else m)" by simp
    also have "\<dots> \<le> length (max_len (if length m < length x then x else m) xs)"
      by (rule max_len_ge_start)
    finally show ?thesis using 2 by simp
  next
    case 3
    then have "c \<in> set ((if length m < length x then x else m) # xs)" by simp
    then have "length c \<le> length (max_len (if length m < length x then x else m) xs)"
      by (rule Cons.IH)
    then show ?thesis by simp
  qed
qed

lemma py_rstrip_prefix: "prefix (py_rstrip s) s"
proof -
  have "rev s = takeWhile py_isspace (rev s) @ dropWhile py_isspace (rev s)"
    by simp
  then have "s = rev (dropWhile py_isspace (rev s)) @ rev (takeWhile py_isspace (rev s))"
    by (metis rev_append rev_rev_ident)
  then show ?thesis
    unfolding py_rstrip_def by (metis prefixI)
qed

lemma py_isspace_space: "py_isspace CHR '' ''"
  by (simp add: py_isspace_def)

lemma py_strip_all_space:
  assumes "\<forall>c \<in> set s. py_isspace c"
  shows "py_strip s = []"
proof -
  from assms have "dropWhile py_isspace s = []"
    by (simp add: dropWhile_eq_Nil_conv)
  then show ?thesis
    by (simp add: py_strip_def py_lstrip_def py_rstrip_def del: dropWhile_eq_Nil_conv)
qed

lemma py_rstrip_append_space: "py_rstrip (u @ '' '') = py_rstrip u"
  by (simp add: py_rstrip_def py_isspace_space)

lemma py_rstrip_append_solid:
  assumes "\<exists>c \<in> set a. \<not> py_isspace c"
  shows "py_rstrip (u @ a) = u @ py_rstrip a"
proof -
  from assms have "\<exists>c \<in> set (rev a). \<not> py_isspace c" by simp
  then have "dropWhile py_isspace (rev a @ rev u) = dropWhile py_isspace (rev a) @ rev u"
    by (metis dropWhile_append1)
  then show ?thesis by (simp add: py_rstrip_def)
qed

lemma py_lstrip_append_solid:
  assumes "\<exists>c \<in> set s. \<not> py_isspace c"
  shows "py_lstrip (s @ t) = py_lstrip s @ t"
  using assms unfolding py_lstrip_def by (metis dropWhile_append1)

lemma py_strip_prefix:
  assumes "a = [] \<or> \<not> py_isspace (hd a)"
  shows "prefix (py_strip s) (py_strip (s @ '' '' @ a))"
proof (cases "\<forall>c \<in> set s. py_isspace c")
  case True
  then show ?thesis by (simp add: py_strip_all_space)
next
  case False
  then have solid: "\<exists>c \<in> set s. \<not> py_isspace c" by simp
  then have l: "py_lstrip (s @ '' '' @ a) = py_lstrip s @ '' '' @ a"
    by (rule py_lstrip_append_solid)
  show ?thesis
  proof (cases "a = []")
    case True
    with l show ?thesis
      by (simp add: py_strip_def py_rstrip_append_space)
  next
    case False
    with assms have "\<not> py_isspace (hd a)" by simp
    with False have "\<exists>c \<in> set ('' '' @ a). \<not> py_isspace c"
      by (cases a) auto
    then have "py_rstrip (py_lstrip s @ '' '' @ a) = py_lstrip s @ py_rstrip ('' '' @ a)"
      by (rule py_rstrip_append_solid)
    with l have "py_strip (s @ '' '' @ a) = py_lstrip s @ py_rstrip ('' '' @ a)"
      by (simp add: py_strip_def)
    moreover have "prefix (py_strip s) (py_lstrip s)"
      unfolding py_strip_def by (rule py_rstrip_prefix)
    ultimately show ?thesis
      by (metis prefix_prefix)
  qed
qed

section \<open>Properties of get_news\<close>

lemma author_text_solid: "author_text a = [] \<or> \<not> py_isspace (hd (author_text a))"
  by (simp add: author_text_def Let_def py_isspace_def)

lemma article_summary_choice:
  "(if summary_candidates a = [] then article_summary a = article_title a
    else article_summary a \<in> set (summary_candidates a) \<and>
         (\<forall>c \<in> set (summary_candidates a). length c \<le> length (article_summary a)))"
proof (cases "summary_candidates a")
  case Nil
  then show ?thesis by (simp add: article_summary_def)
next
  case (Cons c cs)
  then show ?thesis
    using max_len_mem [of c cs] max_len_ge [of _ c cs]
    by (simp add: article_summary_def)
qed

lemma news_loop_length: "length (news_loop w i as acc) = length acc + length as"
  by (induction as arbitrary: i acc) auto

lemma news_loop_keeps: "k < length acc \<Longrightarrow> news_loop w i as acc ! k = acc ! k"
  by (induction as arbitrary: i acc) (simp_all add: nth_append)

lemma news_loop_nth:
  "k < length as \<Longrightarrow> news_loop w i as acc ! (length acc + k) = news_item w (i + k) (as ! k)"
proof (induction as arbitrary: i acc k)
  case Nil
  then show ?case by simp
next
  case (Cons a as)
  show ?case
  proof (cases k)
    case 0
    have "news_loop w (Suc i) as (acc @ [news_item w i a]) ! length acc =
          (acc @ [news_item w i a]) ! length acc"
      by (rule news_loop_keeps) simp
    with 0 show ?thesis by simp
  next
    case (Suc j)
    with Cons.prems have "j < length as" by simp
    from Cons.IH [OF this, of "Suc i" "acc @ [news_item w i a]"] Suc
    show ?thesis by simp
  qed
qed

lemma get_news_items:
  assumes "GoogleSearch_new w (news_params w query) = Inr search"
      and "get_dict w search = Inr results"
      and "articles = (case news_results results of None \<Rightarrow> [] | Some as \<Rightarrow> as)"
  shows "get_news w query = ([], Inr (news_loop w 0 articles []))"
  using assms by (simp add: get_news_def get_news_try_def)

text \<open>
  Claim C7, as stated, fails: an error raised inside the tool body is supposed to reach
  the issuing agent as a failure result. When the search raises a ConnectionError,
  \<^verbatim>\<open>get_news\<close> returns normally with the empty list, the value it also returns for a
  search without news results; nothing of the error is left in what the agent receives.
\<close>

theorem get_news_error_result_counterexample:
  "get_news_try offline_world ''TSLA'' =
     Inl (PyException ''ConnectionError'' ''no route to host'') \<and>
   snd (get_news offline_world ''TSLA'') = Inr [] \<and>
   snd (get_news quiet_world ''TSLA'') = Inr []"
  by (simp add: get_news_def get_news_try_def offline_world_def quiet_world_def
      market_world_def)

text \<open>
  Claim C7, amended. For every query \<^verbatim>\<open>get_news\<close> returns a list and raises nothing: an
  exception raised inside its \<^verbatim>\<open>try\<close> block is caught by the tool body itself, its message
  is printed, and the empty list is returned as a normal result, so the call ends with one
  result and the conversation can go on, but no failure result reaches the agent.
\<close>

theorem get_news_absorbs_errors:
  "(\<exists>news_items. snd (get_news w query) = Inr news_items) \<and>
   (\<forall>e. get_news_try w query = Inl e \<longrightarrow>
      get_news w query = ([''Error fetching news: '' @ exc_str e], Inr []))"
  by (cases "get_news_try w query") (simp_all add: get_news_def)

theorem get_news_absorbs_errors_witness:
  "get_news offline_world ''TSLA'' = ([''Error fetching news: no route to host''], Inr [])"
proof -
  have h: "get_news_try offline_world ''TSLA'' =
             Inl (PyException ''ConnectionError'' ''no route to host'')"
    by (simp add: get_news_try_def offline_world_def)
  from get_news_absorbs_errors [of offline_world "''TSLA''"] h show ?thesis by simp
qed

text \<open>
  Claim C9, as stated, fails: the summary field is supposed to begin with the longest
  non-empty string among snippet, description and link_text. For an article whose only
  such string is \<open>'' a''\<close> the field is \<open>''a''\<close>: the final \<^verbatim>\<open>strip()\<close> of line 123 removes
  the leading blank.
\<close>

theorem get_news_summary_prefix_counterexample:
  "snd (get_news padded_world ''TSLA'') =
     Inr [[(''title'', ''T''), (''date'', ''2025-01-15''), (''summary'', ''a''),
           (''source'', '''')]] \<and>
   summary_candidates art_padded = ['' a''] \<and>
   \<not> prefix '' a'' ''a''"
  by (simp add: get_news_def get_news_try_def padded_world_def market_world_def
      news_item_def article_title_def article_summary_def summary_candidates_def
      author_text_def source_name_def format_date_def art_padded_def
      py_strip_def py_lstrip_def py_rstrip_def py_isspace_def)

text \<open>
  Claim C9, amended. When the search raises nothing, the element returned for the article
  at position \<open>k\<close> has exactly the keys title, date, summary and source. Its summary field
  is the stripped concatenation of the chosen string, a blank and the author text, and it
  begins with the chosen string stripped of surrounding whitespace. The chosen string is
  a longest one among the non-empty strings of snippet, description and link_text, and the
  stripped title when there is none.
\<close>

theorem get_news_summary_field:
  assumes "GoogleSearch_new w (news_params w query) = Inr search"
      and "get_dict w search = Inr results"
      and "articles = (case news_results results of None \<Rightarrow> [] | Some as \<Rightarrow> as)"
      and "k < length articles"
  shows "\<exists>news_items chosen.
           snd (get_news w query) = Inr news_items \<and>
           length news_items = length articles \<and>
           map fst (news_items ! k) = [''title'', ''date'', ''summary'', ''source''] \<and>
           (if summary_candidates (articles ! k) = []
            then chosen = article_title (articles ! k)
            else chosen \<in> set (summary_candidates (articles ! k)) \<and>
                 (\<forall>c \<in> set (summary_candidates (articles ! k)). length c \<le> length chosen)) \<and>
           map_of (news_items ! k) ''summary'' =
             Some (py_strip (chosen @ '' '' @ author_text (articles ! k))) \<and>
           prefix (py_strip chosen) (py_strip (chosen @ '' '' @ author_text (articles ! k)))"
proof -
  let ?items = "news_loop w 0 articles []"
  let ?a = "articles ! k"
  have r: "snd (get_news w query) = Inr ?items"
    using get_news_items [OF assms(1,2,3)] by simp
  have n: "?items ! k = news_item w k ?a"
    using news_loop_nth [OF assms(4), of w 0 "[]"] by simp
  have "map fst (?items ! k) = [''title'', ''date'', ''summary'', ''source'']"
    by (simp add: n news_item_def)
  moreover have "map_of (?items ! k) ''summary'' =
                   Some (py_strip (article_summary ?a @ '' '' @ author_text ?a))"
    by (simp add: n news_item_def)
  moreover have "prefix (py_strip (article_summary ?a))
                   (py_strip (article_summary ?a @ '' '' @ author_text ?a))"
    by (rule py_strip_prefix) (rule author_text_solid)
  moreover have "length ?items = length articles"
    by (simp add: news_loop_length)
  ultimately have
    "snd (get_news w query) = Inr ?items \<and>
     length ?items = length articles \<and>
     map fst (?items ! k) = [''title'', ''date'', ''summary'', ''source''] \<and>
     (if summary_candidates ?a = []
      then article_summary ?a = article_title ?a
      else article_summary ?a \<in> set (summary_candidates ?a) \<and>
           (\<forall>c \<in> set (summary_candidates ?a). length c \<le> length (article_summary ?a))) \<and>
     map_of (?items ! k) ''summary'' =
       Some (py_strip (article_summary ?a @ '' '' @ author_text ?a)) \<and>
     prefix (py_strip (article_summary ?a))
       (py_strip (article_summary ?a @ '' '' @ author_text ?a))"
    using r article_summary_choice [of ?a] by simp
  then show ?thesis
    by (intro exI [of _ ?items] exI [of _ "article_summary ?a"])
qed

theorem get_news_summary_field_witness:
  "\<exists>news_items chosen.
     snd (get_news market_world ''TSLA'') = Inr news_items \<and>
     length news_items = length [art_dated, art_padded, art_relative] \<and>
     map fst (news_items ! 0) = [''title'', ''date'', ''summary'', ''source''] \<and>
     (if summary_candidates ([art_dated, art_padded, art_relative] ! 0) = []
      then chosen = article_title ([art_dated, art_padded, art_relative] ! 0)
      else chosen \<in> set (summary_candidates ([art_dated, art_padded, art_relative] ! 0)) \<and>
           (\<forall>c \<in> set (summary_candidates ([art_dated, art_padded, art_relative] ! 0)).
              length c \<le> length chosen)) \<and>
     map_of (news_items ! 0) ''summary'' =
       Some (py_strip (chosen @ '' '' @ author_text ([art_dated, art_padded, art_relative] ! 0))) \<and>
     prefix (py_strip chosen)
       (py_strip (chosen @ '' '' @ author_text ([art_dated, art_padded, art_relative] ! 0)))"
proof -
  have h1: "GoogleSearch_new market_world (news_params market_world ''TSLA'') =
              Inr (GoogleSearchObj (news_params market_world ''TSLA''))"
    by (simp add: market_world_def)
  have h2: "get_dict market_world (GoogleSearchObj (news_params market_world ''TSLA'')) =
              Inr \<lparr>news_results = Some [art_dated, art_padded, art_relative]\<rparr>"
    by (simp add: market_world_def)
  have h3: "[art_dated, art_padded, art_relative] =
              (case news_results \<lparr>news_results = Some [art_dated, art_padded, art_relative]\<rparr> of
                 None \<Rightarrow> [] | Some as \<Rightarrow> as)"
    by simp
  have h4: "0 < length [art_dated, art_padded, art_relative]"
    by simp
  show ?thesis
    by (rule get_news_summary_field [OF h1 h2 h3 h4])
qed

text \<open>
  Claim C10. When the search raises nothing, the date field of the element returned for
  the article at position \<open>k\<close> is: the current date formatted with \<^verbatim>\<open>%Y-%m-%d\<close> when the
  article's date string is empty (or absent); otherwise the date parsed with
  \<^verbatim>\<open>%m/%d/%Y\<close> from the part before the first comma, formatted with \<^verbatim>\<open>%Y-%m-%d\<close>; and
  the date string unchanged when parsing fails.
\<close>

theorem get_news_date_field:
  assumes "GoogleSearch_new w (news_params w query) = Inr search"
      and "get_dict w search = Inr results"
      and "articles = (case news_results results of None \<Rightarrow> [] | Some as \<Rightarrow> as)"
      and "k < length articles"
      and "date_str = (case art_date (articles ! k) of None \<Rightarrow> [] | Some d \<Rightarrow> d)"
  shows "\<exists>news_items.
           snd (get_news w query) = Inr news_items \<and>
           length news_items = length articles \<and>
           map_of (news_items ! k) ''date'' =
             Some (if date_str = [] then strftime w (datetime_now w k) ''%Y-%m-%d''
                   else (case strptime w (takeWhile (\<lambda>c. c \<noteq> CHR '','') date_str) ''%m/%d/%Y'' of
                           Inr date_obj \<Rightarrow> strftime w date_obj ''%Y-%m-%d''
                         | Inl e \<Rightarrow> date_str))"
proof -
  let ?items = "news_loop w 0 articles []"
  have r: "snd (get_news w query) = Inr ?items"
    using get_news_items [OF assms(1,2,3)] by simp
  have n: "?items ! k = news_item w k (articles ! k)"
    using news_loop_nth [OF assms(4), of w 0 "[]"] by simp
  obtain ps where ps: "py_split CHR '','' date_str = takeWhile (\<lambda>c. c \<noteq> CHR '','') date_str # ps"
    using py_split_first by blast
  have "map_of (?items ! k) ''date'' = Some (format_date w k date_str)"
    by (simp add: n news_item_def assms(5))
  moreover have "format_date w k date_str =
     (if date_str = [] then strftime w (datetime_now w k) ''%Y-%m-%d''
      else (case strptime w (takeWhile (\<lambda>c. c \<noteq> CHR '','') date_str) ''%m/%d/%Y'' of
              Inr date_obj \<Rightarrow> strftime w date_obj ''%Y-%m-%d''
            | Inl e \<Rightarrow> date_str))"
    by (simp add: format_date_def ps split: sum.splits)
  ultimately show ?thesis
    using r by (simp add: news_loop_length)
qed

theorem get_news_date_field_witness:
  "\<exists>news_items.
     snd (get_news market_world ''TSLA'') = Inr news_items \<and>
     length news_items = length [art_dated, art_padded, art_relative] \<and>
     map_of (news_items ! 0) ''date'' = Some ''2024-12-25''"
proof -
  have h1: "GoogleSearch_new market_world (news_params market_world ''TSLA'') =
              Inr (GoogleSearchObj (news_params market_world ''TSLA''))"
    by (simp add: market_world_def)
  have h2: "get_dict market_world (GoogleSearchObj (news_params market_world ''TSLA'')) =
              Inr \<lparr>news_results = Some [art_dated, art_padded, art_relative]\<rparr>"
    by (simp add: market_world_def)
  have h3: "[art_dated, art_padded, art_relative] =
              (case news_results \<lparr>news_results = Some [art_dated, art_padded, art_relative]\<rparr> of
                 None \<Rightarrow> [] | Some as \<Rightarrow> as)"
    by simp
  have h4: "0 < length [art_dated, art_padded, art_relative]"
    by simp
  have h5: "''12/25/2024, 10:30 AM, +0000 UTC'' =
              (case art_date ([art_dated, art_padded, art_relative] ! 0) of
                 None \<Rightarrow> [] | Some d \<Rightarrow> d)"
    by (simp add: art_dated_def)
  have e: "(if ''12/25/2024, 10:30 AM, +0000 UTC'' = []
            then strftime market_world (datetime_now market_world 0) ''%Y-%m-%d''
            else (case strptime market_world
                         (takeWhile (\<lambda>c. c \<noteq> CHR '','') ''12/25/2024, 10:30 AM, +0000 UTC'')
                         ''%m/%d/%Y'' of
                    Inr date_obj \<Rightarrow> strftime market_world date_obj ''%Y-%m-%d''
                  | Inl e \<Rightarrow> ''12/25/2024, 10:30 AM, +0000 UTC'')) = ''2024-12-25''"
    by (simp add: market_world_def)
  from get_news_date_field [OF h1 h2 h3 h4 h5] show ?thesis
    unfolding e .
qed

section \<open>Properties of the orchestration engine\<close>




lemma satisfied_terminated_update [simp]:
  "satisfied cond (st\<lparr>terminated := b\<rparr>) = satisfied cond st"
  by (induction cond) simp_all



text \<open>
  The configuration of main passes the checks made at construction time, and the loop run
  on the scripted model returns after four turns, given fuel for them.
\<close>

lemma valid_participants: "valid_configuration participants ''planner''"
  by (simp add: valid_configuration_def participants_def planner_def financial_analyst_def
      news_analyst_def writer_def)

lemma scripted_run:
  "run scripted_model no_tools 10 task participants ''planner'' text_termination =
     Some (Inr \<lparr>transcript = [Task task, Text ''plan'', HandoffDirective ''writer'',
                              Text ''report'', InvalidTargetError ''news_analyst'',
                              Text ''report'', HandoffDirective ''planner'',
                              Text ''done TERMINATE''],
                activeAgent = ''planner'', turnCount = 4, terminated = True\<rparr>)"
  by code_simp

lemma scripted_run_short:
  "run scripted_model no_tools 3 task participants ''planner'' text_termination = None"
  by code_simp








end
